theory Spec2Isabelle
  imports Complex_Main
begin

section \<open>JavaScript values\<close>

text \<open>
  The generator hands the result of \<^verbatim>\<open>JSON.parse\<close> on, untyped, and the renderer reads
  whatever it is given, so the model works on JavaScript values rather than on the
  TypeScript interfaces. \<open>JUndefined\<close> is what reading an absent property gives; an
  object is the association list of its own properties (looked up with \<open>map_of\<close>).
  Numbers are carried as reals: the code only compares them with zero (truthiness) and
  passes them on.
\<close>

datatype jsval =
    JUndefined
  | JNull
  | JBool bool
  | JNum real
  | JStr string
  | JArr "jsval list"
  | JObj "(string \<times> jsval) list"

text \<open>
  A thrown value: an \<^verbatim>\<open>Error\<close> with its message, a \<^verbatim>\<open>TypeError\<close> of the engine, the
  \<^verbatim>\<open>SyntaxError\<close> of \<^verbatim>\<open>JSON.parse\<close>, or the rejection of the inference call.
\<close>

datatype jserror = Error string | TypeError | SyntaxError | Rejection

text \<open>
  \<^verbatim>\<open>err.message\<close>; the engine's wording for its own errors is not modelled, only that
  they carry one.
\<close>

fun message :: "jserror \<Rightarrow> string" where
  "message (Error m) = m"
| "message TypeError = ''TypeError''"
| "message SyntaxError = ''SyntaxError''"
| "message Rejection = ''Rejection''"

text \<open>Sequencing of steps that may throw: the first thrown value ends the evaluation.\<close>

definition bindE :: "jserror + 'a \<Rightarrow> ('a \<Rightarrow> jserror + 'b) \<Rightarrow> jserror + 'b" where
  "bindE x f = (case x of Inl err \<Rightarrow> Inl err | Inr v \<Rightarrow> f v)"

fun truthy :: "jsval \<Rightarrow> bool" where
  "truthy JUndefined = False"
| "truthy JNull = False"
| "truthy (JBool b) = b"
| "truthy (JNum x) = (x \<noteq> 0)"
| "truthy (JStr s) = (s \<noteq> [])"
| "truthy (JArr xs) = True"
| "truthy (JObj kvs) = True"

text \<open>
  \<^verbatim>\<open>v.name\<close> and destructuring \<^verbatim>\<open>{name} = v\<close>, for the property names the code
  reads (\<^verbatim>\<open>shapes\<close>, \<^verbatim>\<open>modelKey\<close>, \<^verbatim>\<open>type\<close>, \<^verbatim>\<open>position\<close>, \<^verbatim>\<open>rotation\<close>,
  \<^verbatim>\<open>scale\<close>, \<^verbatim>\<open>color\<close>, \<^verbatim>\<open>metalness\<close>, \<^verbatim>\<open>roughness\<close>, \<^verbatim>\<open>texture\<close>): none of
  them is defined on a built-in prototype, so only an object's own property can answer;
  reading from \<^verbatim>\<open>undefined\<close> or \<^verbatim>\<open>null\<close> throws.
\<close>

fun getProp :: "jsval \<Rightarrow> string \<Rightarrow> jserror + jsval" where
  "getProp JUndefined k = Inl TypeError"
| "getProp JNull k = Inl TypeError"
| "getProp (JObj kvs) k = Inr (case map_of kvs k of None \<Rightarrow> JUndefined | Some v \<Rightarrow> v)"
| "getProp v k = Inr JUndefined"

text \<open>\<^verbatim>\<open>v[i]\<close> for the indices 0, 1 and 2 the renderer reads.\<close>

definition indexKey :: "nat \<Rightarrow> string" where
  "indexKey i = (if i = 0 then ''0'' else if i = 1 then ''1'' else ''2'')"

fun getIndex :: "jsval \<Rightarrow> nat \<Rightarrow> jserror + jsval" where
  "getIndex JUndefined i = Inl TypeError"
| "getIndex JNull i = Inl TypeError"
| "getIndex (JArr xs) i = Inr (if i < length xs then xs ! i else JUndefined)"
| "getIndex (JStr s) i = Inr (if i < length s then JStr [s ! i] else JUndefined)"
| "getIndex (JObj kvs) i =
     Inr (case map_of kvs (indexKey i) of None \<Rightarrow> JUndefined | Some v \<Rightarrow> v)"
| "getIndex v i = Inr JUndefined"

text \<open>
  The conversion of a value to a property key (\<^verbatim>\<open>ToPropertyKey\<close>, that is
  \<^verbatim>\<open>ToString\<close> of the primitive): an array joins its elements with commas, writing
  nothing for \<^verbatim>\<open>undefined\<close> and \<^verbatim>\<open>null\<close>; a plain object is \<^verbatim>\<open>[object Object]\<close>
  unless an own property hides \<^verbatim>\<open>Object.prototype.toString\<close>, when no method yields
  a primitive and the conversion throws. The printing of numbers is the engine's and is
  taken as the parameter \<open>numberToString\<close>.
\<close>

fun toPropertyKey :: "(real \<Rightarrow> string) \<Rightarrow> jsval \<Rightarrow> jserror + string"
  and joinElements :: "(real \<Rightarrow> string) \<Rightarrow> jsval list \<Rightarrow> jserror + string"
where
  "toPropertyKey numberToString JUndefined = Inr ''undefined''"
| "toPropertyKey numberToString JNull = Inr ''null''"
| "toPropertyKey numberToString (JBool b) = Inr (if b then ''true'' else ''false'')"
| "toPropertyKey numberToString (JNum x) = Inr (numberToString x)"
| "toPropertyKey numberToString (JStr s) = Inr s"
| "toPropertyKey numberToString (JArr xs) = joinElements numberToString xs"
| "toPropertyKey numberToString (JObj kvs) =
     (if map_of kvs ''toString'' \<noteq> None then Inl TypeError else Inr ''[object Object]'')"
| "joinElements numberToString [] = Inr ''''"
| "joinElements numberToString (x # xs) =
     bindE (if x = JUndefined \<or> x = JNull then Inr '''' else toPropertyKey numberToString x)
       (\<lambda>s. if xs = [] then Inr s
            else bindE (joinElements numberToString xs) (\<lambda>r. Inr (s @ '','' @ r)))"

section \<open>The static libraries\<close>

text \<open>
  \<^verbatim>\<open>ASSET_LIBRARY\<close> and \<^verbatim>\<open>TEXTURE_MAP\<close> are object literals, so \<^verbatim>\<open>LIB[key]\<close> finds an
  own property or, failing that, a member inherited from \<^verbatim>\<open>Object.prototype\<close>
  (a function, or the prototype object for \<^verbatim>\<open>__proto__\<close>); every other key reads
  \<^verbatim>\<open>undefined\<close>, here \<open>None\<close>.
\<close>

datatype libval = LibString string | ProtoMember string

definition objectPrototypeNames :: "string list" where
  "objectPrototypeNames =
     [''constructor'', ''toString'', ''toLocaleString'', ''valueOf'', ''hasOwnProperty'',
      ''isPrototypeOf'', ''propertyIsEnumerable'', ''__proto__'', ''__defineGetter__'',
      ''__defineSetter__'', ''__lookupGetter__'', ''__lookupSetter__'']"

definition recordGet :: "(string \<times> string) list \<Rightarrow> string \<Rightarrow> libval option" where
  "recordGet lib k =
     (case map_of lib k of
        Some url \<Rightarrow> Some (LibString url)
      | None \<Rightarrow> (if k \<in> set objectPrototypeNames then Some (ProtoMember k) else None))"

fun truthyLib :: "libval option \<Rightarrow> bool" where
  "truthyLib None = False"
| "truthyLib (Some (LibString s)) = (s \<noteq> [])"
| "truthyLib (Some (ProtoMember n)) = True"

definition ASSET_LIBRARY :: "(string \<times> string) list" where
  "ASSET_LIBRARY =
     [(''duck'', ''https://raw.githubusercontent.com/KhronosGroup/glTF-Sample-Models/master/2.0/Duck/glTF-Binary/Duck.glb''),
      (''robot'', ''https://raw.githubusercontent.com/mrdoob/three.js/master/examples/models/gltf/RobotExpressive/RobotExpressive.glb''),
      (''avocado'', ''https://raw.githubusercontent.com/KhronosGroup/glTF-Sample-Models/master/2.0/Avocado/glTF-Binary/Avocado.glb''),
      (''boombox'', ''https://raw.githubusercontent.com/KhronosGroup/glTF-Sample-Models/master/2.0/BoomBox/glTF-Binary/BoomBox.glb''),
      (''lantern'', ''https://raw.githubusercontent.com/KhronosGroup/glTF-Sample-Models/master/2.0/Lantern/glTF-Binary/Lantern.glb''),
      (''buggy'', ''https://raw.githubusercontent.com/KhronosGroup/glTF-Sample-Models/master/2.0/Buggy/glTF-Binary/Buggy.glb''),
      (''helmet'', ''https://raw.githubusercontent.com/KhronosGroup/glTF-Sample-Models/master/2.0/DamagedHelmet/glTF-Binary/DamagedHelmet.glb'')]"

definition TEXTURE_MAP :: "(string \<times> string) list" where
  "TEXTURE_MAP =
     [(''wood'', ''https://raw.githubusercontent.com/mrdoob/three.js/master/examples/textures/hardwood2_diffuse.jpg''),
      (''brick'', ''https://raw.githubusercontent.com/mrdoob/three.js/master/examples/textures/brick_diffuse.jpg''),
      (''stone'', ''https://raw.githubusercontent.com/mrdoob/three.js/master/examples/textures/planets/moon_1024.jpg''),
      (''metal'', ''https://raw.githubusercontent.com/mrdoob/three.js/master/examples/textures/carbon/Carbon.png''),
      (''tech'', ''https://raw.githubusercontent.com/mrdoob/three.js/master/examples/textures/uv_grid_opengl.jpg''),
      (''checkers'', ''https://raw.githubusercontent.com/mrdoob/three.js/master/examples/textures/checker.png'')]"

section \<open>The scene generator\<close>

text \<open>
  \<^verbatim>\<open>GeneratedModelData\<close> as it exists at run time: \<open>shapes\<close> is whatever value the
  response held, \<open>modelUrl\<close> is absent or what the library lookup returned.
\<close>

record GeneratedModelData =
  shapes :: jsval
  modelUrl :: "libval option"

text \<open>
  What the code does not define is a parameter: the credential read from the process
  environment, the inference call (it rejects, or resolves to a response whose
  \<^verbatim>\<open>text\<close> is a string or \<^verbatim>\<open>undefined\<close>), \<^verbatim>\<open>JSON.parse\<close> (\<open>None\<close> for a syntax
  error) and the engine's printing of numbers (written \<open>n2s\<close> where it is passed alone).
\<close>

datatype response = Rejects | Resolves "string option"

record env =
  apiKey :: string
  generateContent :: "string \<Rightarrow> response"
  JSON_parse :: "string \<Rightarrow> jsval option"
  numberToString :: "real \<Rightarrow> string"

text \<open>The statements of the \<^verbatim>\<open>try\<close> block after the response has arrived.\<close>

definition processResponse :: "env \<Rightarrow> string option \<Rightarrow> jserror + GeneratedModelData" where
  "processResponse e text =
     (case text of
        None \<Rightarrow> Inl (Error ''No response from AI'')
      | Some t \<Rightarrow>
         (if t = [] then Inl (Error ''No response from AI'')
          else
           bindE (case JSON_parse e t of None \<Rightarrow> Inl SyntaxError | Some v \<Rightarrow> Inr v)
            (\<lambda>parsed.
              bindE (getProp parsed ''shapes'')
               (\<lambda>sh.
                 (let result = \<lparr>shapes = (if truthy sh then sh else JArr []), modelUrl = None\<rparr>
                  in bindE (getProp parsed ''modelKey'')
                      (\<lambda>modelKey.
                        if truthy modelKey then
                          bindE (toPropertyKey (numberToString e) modelKey)
                           (\<lambda>k. if truthyLib (recordGet ASSET_LIBRARY k)
                                then Inr (result\<lparr>modelUrl := recordGet ASSET_LIBRARY k\<rparr>)
                                else Inr result)
                        else Inr result))))))"

text \<open>
  \<^verbatim>\<open>generate3DStructure\<close>: the outcome of the promise, paired with the prompts submitted
  to the inference backend during the call (the outbound requests).
\<close>

definition generate3DStructure :: "env \<Rightarrow> string \<Rightarrow> (jserror + GeneratedModelData) \<times> string list" where
  "generate3DStructure e prompt =
     (if apiKey e = [] then
        (Inl (Error ''API Key is missing. Please set REACT_APP_API_KEY or check your environment.''), [])
      else
        ((case (case generateContent e prompt of
                  Rejects \<Rightarrow> Inl Rejection
                | Resolves text \<Rightarrow> processResponse e text) of
            Inl err \<Rightarrow> Inl (Error ''Failed to generate 3D model data.'')
          | Inr result \<Rightarrow> Inr result),
         [prompt]))"

section \<open>The scene renderer\<close>

text \<open>
  The scene graph is the element tree the repository's components return when they are
  run; the elements of the rendering library (the primitive meshes, \<^verbatim>\<open>Gltf\<close>,
  \<^verbatim>\<open>Resize\<close>) are its nodes, and what they load is outside the model. A material
  carries its texture (absent for the plain \<^verbatim>\<open>meshStandardMaterial\<close>) and the three
  parameters as the values they were given.
\<close>

datatype wrapping = RepeatWrapping | ClampToEdgeWrapping

record textureMap =
  url :: libval
  wrapS :: wrapping
  wrapT :: wrapping
  repeatXY :: "real \<times> real"

record material =
  texmap :: "textureMap option"
  color :: jsval
  metalness :: jsval
  roughness :: jsval

text \<open>
  \<^verbatim>\<open>useTexture\<close> belongs to the rendering library, not to the repository; what it returns
  is modelled as far as \<^verbatim>\<open>TexturedMaterial\<close> depends on it. Given a plain object of URLs
  it returns an object holding one texture under each of the argument's own keys, and
  \<^verbatim>\<open>Object.prototype\<close> (what the key \<^verbatim>\<open>__proto__\<close> finds) is such an object, with no
  own key. Anything else, a URL string or an inherited function, is handed to the
  loader as the source of one texture; the loading itself is outside the model.
\<close>

datatype loaded = Texture libval | KeyedTextures

definition useTexture :: "libval \<Rightarrow> loaded" where
  "useTexture u = (if u = ProtoMember ''__proto__'' then KeyedTextures else Texture u)"

text \<open>
  \<^verbatim>\<open>TexturedMaterial\<close> sets the wrapping and then calls \<^verbatim>\<open>texture.repeat.set(1, 1)\<close>: on
  the object of keyed textures \<^verbatim>\<open>repeat\<close> is undefined and the call throws.
\<close>

definition TexturedMaterial :: "libval \<Rightarrow> jsval \<Rightarrow> jsval \<Rightarrow> jsval \<Rightarrow> jserror + material" where
  "TexturedMaterial u c m r =
     (case useTexture u of
        KeyedTextures \<Rightarrow> Inl TypeError
      | Texture source \<Rightarrow>
         Inr \<lparr>texmap = Some \<lparr>url = source, wrapS = RepeatWrapping, wrapT = RepeatWrapping,
                              repeatXY = (1, 1)\<rparr>,
              color = c, metalness = m, roughness = r\<rparr>)"

text \<open>
  \<^verbatim>\<open>ShapeMaterial\<close>: a destructuring default replaces \<^verbatim>\<open>undefined\<close> only; the texture is
  looked up when it is truthy and the lookup is truthy.
\<close>

definition ShapeMaterial :: "(real \<Rightarrow> string) \<Rightarrow> jsval \<Rightarrow> jserror + material" where
  "ShapeMaterial n2s shape =
     bindE (getProp shape ''color'') (\<lambda>c.
     bindE (getProp shape ''metalness'') (\<lambda>m0.
     bindE (getProp shape ''roughness'') (\<lambda>r0.
     bindE (getProp shape ''texture'') (\<lambda>texture.
       (let m = (if m0 = JUndefined then JNum 0.3 else m0);
            r = (if r0 = JUndefined then JNum 0.5 else r0)
        in if truthy texture then
             bindE (toPropertyKey n2s texture)
              (\<lambda>k. if truthyLib (recordGet TEXTURE_MAP k)
                   then TexturedMaterial (the (recordGet TEXTURE_MAP k)) c m r
                   else Inr \<lparr>texmap = None, color = c, metalness = m, roughness = r\<rparr>)
           else Inr \<lparr>texmap = None, color = c, metalness = m, roughness = r\<rparr>)))))"

datatype geometry = Box | Sphere | Cylinder | Cone | Torus | Capsule

text \<open>
  A node is a primitive mesh (geometry, constructor arguments, local position, rotation
  and scale as the three values read from the shape, material) or the imported model
  (\<^verbatim>\<open>Gltf\<close> inside \<^verbatim>\<open>Resize\<close>, with the size it is fitted to).
\<close>

datatype node =
    Mesh (geom: geometry) (args: "real list")
         (position: "jsval list") (rotation: "jsval list") (scale: "jsval list")
         (mat: material)
  | ResizeGltf (fit: real) (src: libval) (castShadow: bool) (receiveShadow: bool)

text \<open>\<^verbatim>\<open>[v[0], v[1], v[2]]\<close>.\<close>

definition triple :: "jsval \<Rightarrow> jserror + jsval list" where
  "triple v =
     bindE (getIndex v 0) (\<lambda>a.
     bindE (getIndex v 1) (\<lambda>b.
     bindE (getIndex v 2) (\<lambda>c. Inr [a, b, c])))"

text \<open>The \<^verbatim>\<open>switch\<close> on the shape's type: strict equality with the six literals.\<close>

definition primitive :: "jsval \<Rightarrow> (geometry \<times> real list) option" where
  "primitive t =
     (if t = JStr ''box'' then Some (Box, [1, 1, 1])
      else if t = JStr ''sphere'' then Some (Sphere, [1, 32, 32])
      else if t = JStr ''cylinder'' then Some (Cylinder, [1, 1, 1, 32])
      else if t = JStr ''cone'' then Some (Cone, [1, 2, 32])
      else if t = JStr ''torus'' then Some (Torus, [1, 0.4, 16, 32])
      else if t = JStr ''capsule'' then Some (Capsule, [0.5, 1, 4, 16])
      else None)"

text \<open>
  \<^verbatim>\<open>ShapeRenderer\<close>: \<open>Inr None\<close> is the component returning \<^verbatim>\<open>null\<close>. The material is
  a child element, rendered only when a mesh is returned; an error thrown while either
  renders fails the tree.
\<close>

definition ShapeRenderer :: "(real \<Rightarrow> string) \<Rightarrow> jsval \<Rightarrow> jserror + node option" where
  "ShapeRenderer n2s shape =
     bindE (getProp shape ''type'') (\<lambda>t.
     bindE (getProp shape ''position'') (\<lambda>p.
     bindE (getProp shape ''rotation'') (\<lambda>r.
     bindE (getProp shape ''scale'') (\<lambda>s.
     bindE (triple p) (\<lambda>pos.
     bindE (triple r) (\<lambda>rot.
     bindE (triple s) (\<lambda>scl.
       (case primitive t of
          None \<Rightarrow> Inr None
        | Some (g, as) \<Rightarrow>
           bindE (ShapeMaterial n2s shape)
            (\<lambda>content. Inr (Some (Mesh g as pos rot scl content)))))))))))"

text \<open>\<^verbatim>\<open>data.shapes.map(...)\<close> rendered in order; a \<^verbatim>\<open>null\<close> child adds no node.\<close>

fun renderShapes :: "(real \<Rightarrow> string) \<Rightarrow> jsval list \<Rightarrow> jserror + node list" where
  "renderShapes n2s [] = Inr []"
| "renderShapes n2s (shape # rest) =
     bindE (ShapeRenderer n2s shape) (\<lambda>n.
     bindE (renderShapes n2s rest) (\<lambda>ns.
       Inr (case n of None \<Rightarrow> ns | Some x \<Rightarrow> x # ns)))"

text \<open>
  \<^verbatim>\<open>GeneratedObject\<close>: the children of the group. Only an array has a \<^verbatim>\<open>map\<close> method
  to call.
\<close>

definition GeneratedObject :: "(real \<Rightarrow> string) \<Rightarrow> GeneratedModelData \<Rightarrow> jserror + node list" where
  "GeneratedObject n2s data =
     (if truthyLib (modelUrl data) then Inr [ResizeGltf 2.5 (the (modelUrl data)) True True]
      else
        (case shapes data of
           JArr xs \<Rightarrow> renderShapes n2s xs
         | other \<Rightarrow> Inl TypeError))"

section \<open>The caller\<close>

text \<open>
  \<^verbatim>\<open>String.prototype.trim\<close> on strings of code units below 256: the white space and line
  terminators in that range are TAB, LF, VT, FF, CR, SP and NBSP.
\<close>

definition isWhiteSpace :: "char \<Rightarrow> bool" where
  "isWhiteSpace c = (c \<in> {CHR 0x09, CHR 0x0A, CHR 0x0B, CHR 0x0C, CHR 0x0D, CHR 0x20, CHR 0xA0})"

definition trim :: "string \<Rightarrow> string" where
  "trim s = rev (dropWhile isWhiteSpace (rev (dropWhile isWhiteSpace s)))"

record AppState =
  prompt :: string
  isARMode :: bool
  loading :: bool
  modelData :: "GeneratedModelData option"
  error :: "string option"

text \<open>
  \<^verbatim>\<open>handleGenerate\<close>, from the click to the settled promise: the state it leaves and the
  requests that went to the backend.
\<close>

definition handleGenerate :: "env \<Rightarrow> AppState \<Rightarrow> AppState \<times> string list" where
  "handleGenerate e s =
     (if trim (prompt s) = [] then (s, [])
      else
        (let s1 = s\<lparr>loading := True, error := None\<rparr>;
             (outcome, requests) = generate3DStructure e (prompt s)
         in (case outcome of
               Inr data \<Rightarrow> (s1\<lparr>modelData := Some data, loading := False\<rparr>, requests)
             | Inl err \<Rightarrow>
                (s1\<lparr>error := Some (if message err \<noteq> [] then message err
                                     else ''Failed to generate object''),
                    loading := False\<rparr>, requests))))"

section \<open>The data model of the specification\<close>

text \<open>
  The predicates the properties below are stated with. A shape instruction of the data
  model is an object whose \<^verbatim>\<open>position\<close>, \<^verbatim>\<open>rotation\<close> and \<^verbatim>\<open>scale\<close> are vectors
  (arrays, of whatever length) and whose \<^verbatim>\<open>texture\<close> is an optional key: absent, null,
  or a string, one of the library's keys or an unrecognised one, that is not the name of
  a member inherited from \<^verbatim>\<open>Object.prototype\<close>. Its kind may be any value, and is valid
  when it is one of the six names.
\<close>

definition field :: "jsval \<Rightarrow> string \<Rightarrow> jsval" where
  "field v k = (case getProp v k of Inl err \<Rightarrow> JUndefined | Inr x \<Rightarrow> x)"

fun isObject :: "jsval \<Rightarrow> bool" where
  "isObject (JObj kvs) = True"
| "isObject v = False"

fun isVector :: "jsval \<Rightarrow> bool" where
  "isVector (JArr xs) = True"
| "isVector v = False"

fun nullableString :: "jsval \<Rightarrow> bool" where
  "nullableString JUndefined = True"
| "nullableString JNull = True"
| "nullableString (JStr s) = True"
| "nullableString v = False"

fun optionalTextureKey :: "jsval \<Rightarrow> bool" where
  "optionalTextureKey JUndefined = True"
| "optionalTextureKey JNull = True"
| "optionalTextureKey (JStr k) = (k \<notin> set objectPrototypeNames)"
| "optionalTextureKey v = False"


definition isShapeInstruction :: "jsval \<Rightarrow> bool" where
  "isShapeInstruction s =
     (isObject s \<and> isVector (field s ''position'') \<and> isVector (field s ''rotation'')
      \<and> isVector (field s ''scale'') \<and> optionalTextureKey (field s ''texture''))"

definition kinds :: "string list" where
  "kinds = [''box'', ''sphere'', ''cylinder'', ''cone'', ''torus'', ''capsule'']"

definition hasValidKind :: "jsval \<Rightarrow> bool" where
  "hasValidKind s = (field s ''type'' \<in> JStr ` set kinds)"

definition textureKeys :: "string list" where
  "textureKeys = [''wood'', ''brick'', ''stone'', ''metal'', ''tech'', ''checkers'']"

text \<open>The components of a vector as the renderer reads them: absent ones are undefined.\<close>

definition components :: "jsval list \<Rightarrow> jsval list" where
  "components xs = map (\<lambda>i. if i < length xs then xs ! i else JUndefined) [0, 1, 2]"

section \<open>Concrete inputs\<close>

text \<open>
  A backend that answers every prompt with the text \<open>t\<close>, whose parse is \<open>v\<close> (no other
  text is parsed in these runs, and no number is printed).
\<close>

definition sampleNumberToString :: "real \<Rightarrow> string" where
  "sampleNumberToString x = (if x = 0 then ''0'' else ''1'')"

definition answering :: "string \<Rightarrow> jsval \<Rightarrow> env" where
  "answering t v =
     \<lparr>apiKey = ''key'',
      generateContent = (\<lambda>p. Resolves (Some t)),
      JSON_parse = (\<lambda>x. if x = t then Some v else None),
      numberToString = sampleNumberToString\<rparr>"

definition failing :: env where
  "failing =
     \<lparr>apiKey = ''key'',
      generateContent = (\<lambda>p. Rejects),
      JSON_parse = (\<lambda>x. None),
      numberToString = sampleNumberToString\<rparr>"

text \<open>The small red cube of the specification's scenario.\<close>

definition redCube :: jsval where
  "redCube =
     JObj [(''type'', JStr ''box''),
           (''position'', JArr [JNum 0, JNum 0, JNum 0]),
           (''rotation'', JArr [JNum 0, JNum 0, JNum 0]),
           (''scale'', JArr [JNum 0.5, JNum 0.5, JNum 0.5]),
           (''color'', JStr ''#ff0000'')]"

definition redCubeMaterial :: material where
  "redCubeMaterial =
     \<lparr>texmap = None, color = JStr ''#ff0000'', metalness = JNum 0.3, roughness = JNum 0.5\<rparr>"

definition redCubeNode :: node where
  "redCubeNode =
     Mesh Box [1, 1, 1] [JNum 0, JNum 0, JNum 0] [JNum 0, JNum 0, JNum 0]
          [JNum 0.5, JNum 0.5, JNum 0.5] redCubeMaterial"

definition duckUrl :: string where
  "duckUrl = ''https://raw.githubusercontent.com/KhronosGroup/glTF-Sample-Models/master/2.0/Duck/glTF-Binary/Duck.glb''"

text \<open>A response that names the duck and also lists a shape.\<close>

definition duckAndCubeText :: string where
  \<open>duckAndCubeText = ''{"modelKey":"duck","shapes":[{"type":"box","position":[0,0,0],"rotation":[0,0,0],"scale":[0.5,0.5,0.5],"color":"#ff0000"}]}''\<close>

definition duckAndCube :: jsval where
  "duckAndCube = JObj [(''modelKey'', JStr ''duck''), (''shapes'', JArr [redCube])]"

text \<open>A response with the cube alone.\<close>

definition cubeText :: string where
  \<open>cubeText = ''{"shapes":[{"type":"box","position":[0,0,0],"rotation":[0,0,0],"scale":[0.5,0.5,0.5],"color":"#ff0000"}]}''\<close>

definition cubeOnly :: jsval where
  "cubeOnly = JObj [(''shapes'', JArr [redCube])]"

text \<open>A response whose only shape has an unknown type, a string for a vector and a number for a colour.\<close>

definition malformedText :: string where
  \<open>malformedText = ''{"shapes":[{"type":"pyramid","position":"up","color":5}]}''\<close>

definition malformedShape :: jsval where
  "malformedShape = JObj [(''type'', JStr ''pyramid''), (''position'', JStr ''up''), (''color'', JNum 5)]"

definition malformed :: jsval where
  "malformed = JObj [(''shapes'', JArr [malformedShape])]"

text \<open>A response whose model key names a member every object inherits.\<close>

definition constructorKeyText :: string where
  \<open>constructorKeyText = ''{"modelKey":"constructor","shapes":[]}''\<close>

definition constructorKey :: jsval where
  "constructorKey = JObj [(''modelKey'', JStr ''constructor''), (''shapes'', JArr [])]"

text \<open>A response with no shape at all.\<close>

definition emptyText :: string where
  \<open>emptyText = ''{"shapes":[]}''\<close>

definition emptyScene :: jsval where
  "emptyScene = JObj [(''shapes'', JArr [])]"


text \<open>A shape of a kind outside the set, and one whose texture names an inherited member.\<close>

definition pyramid :: jsval where
  "pyramid =
     JObj [(''type'', JStr ''pyramid''),
           (''position'', JArr [JNum 0, JNum 1, JNum 0]),
           (''rotation'', JArr [JNum 0, JNum 0, JNum 0]),
           (''scale'', JArr [JNum 1, JNum 1, JNum 1]),
           (''color'', JStr ''#0000ff'')]"

definition constructorTextured :: jsval where
  "constructorTextured =
     JObj [(''type'', JStr ''box''),
           (''position'', JArr [JNum 0, JNum 0, JNum 0]),
           (''rotation'', JArr [JNum 0, JNum 0, JNum 0]),
           (''scale'', JArr [JNum 1, JNum 1, JNum 1]),
           (''color'', JStr ''#ff0000''),
           (''texture'', JStr ''constructor'')]"





text \<open>A box whose texture is the key \<^verbatim>\<open>__proto__\<close>, and a box with no scale at all.\<close>

definition protoTextured :: jsval where
  "protoTextured =
     JObj [(''type'', JStr ''box''),
           (''position'', JArr [JNum 0, JNum 0, JNum 0]),
           (''rotation'', JArr [JNum 0, JNum 0, JNum 0]),
           (''scale'', JArr [JNum 1, JNum 1, JNum 1]),
           (''color'', JStr ''#ff0000''),
           (''texture'', JStr ''__proto__'')]"


text \<open>The response that names the duck and nothing else.\<close>

definition duckText :: string where
  \<open>duckText = ''{"modelKey":"duck","shapes":[]}''\<close>

definition duckOnly :: jsval where
  "duckOnly = JObj [(''modelKey'', JStr ''duck''), (''shapes'', JArr [])]"

text \<open>The state of the application with a scene on display and a prompt typed.\<close>

definition showing :: "string \<Rightarrow> AppState" where
  "showing p =
     \<lparr>prompt = p, isARMode = False, loading = False,
      modelData = Some \<lparr>shapes = JArr [redCube], modelUrl = None\<rparr>, error = None\<rparr>"

section \<open>Basic facts\<close>

lemma bindE_Inl: "bindE (Inl err) f = Inl err"
  by (simp add: bindE_def)

lemma bindE_Inr: "bindE (Inr v) f = f v"
  by (simp add: bindE_def)

lemma field_object: "field (JObj kvs) k = (case map_of kvs k of None \<Rightarrow> JUndefined | Some v \<Rightarrow> v)"
  by (simp add: field_def)

lemma getProp_object: "isObject s \<Longrightarrow> getProp s k = Inr (field s k)"
  by (cases s) (simp_all add: field_def)

lemma getProp_field: "v \<noteq> JUndefined \<Longrightarrow> v \<noteq> JNull \<Longrightarrow> getProp v k = Inr (field v k)"
  by (cases v) (simp_all add: field_def)


lemma asset_url_nonempty: "map_of ASSET_LIBRARY k = Some u \<Longrightarrow> u \<noteq> []"
  by (auto simp: ASSET_LIBRARY_def split: if_splits)

lemma texture_url_nonempty: "map_of TEXTURE_MAP k = Some u \<Longrightarrow> u \<noteq> []"
  by (auto simp: TEXTURE_MAP_def split: if_splits)

text \<open>Whatever a lookup in either library finds is truthy.\<close>

lemma truthyLib_recordGet_asset:
  "truthyLib (recordGet ASSET_LIBRARY k) = (recordGet ASSET_LIBRARY k \<noteq> None)"
  by (auto simp: recordGet_def dest: asset_url_nonempty split: option.splits)

lemma truthyLib_recordGet_texture:
  "truthyLib (recordGet TEXTURE_MAP k) = (recordGet TEXTURE_MAP k \<noteq> None)"
  by (auto simp: recordGet_def dest: texture_url_nonempty split: option.splits)

lemma recordGet_own: "map_of lib k = Some u \<Longrightarrow> recordGet lib k = Some (LibString u)"
  by (simp add: recordGet_def)

lemma recordGet_none:
  "map_of lib k = None \<Longrightarrow> k \<notin> set objectPrototypeNames \<Longrightarrow> recordGet lib k = None"
  by (simp add: recordGet_def)

text \<open>
  A texture key finds something exactly when it is one of the six library keys or a name
  inherited from \<^verbatim>\<open>Object.prototype\<close>.
\<close>

lemma textured_iff:
  "truthyLib (recordGet TEXTURE_MAP k) = (k \<in> set textureKeys \<or> k \<in> set objectPrototypeNames)"
  by (simp add: recordGet_def TEXTURE_MAP_def textureKeys_def)

lemma answering_simps:
  "apiKey (answering t v) = ''key''"
  "generateContent (answering t v) p = Resolves (Some t)"
  "JSON_parse (answering t v) t = Some v"
  "numberToString (answering t v) = sampleNumberToString"
  by (simp_all add: answering_def)


section \<open>The generator on a response\<close>

lemma generate_resolved:
  assumes "apiKey e \<noteq> []"
    and "generateContent e p = Resolves body"
  shows "generate3DStructure e p =
    ((case processResponse e body of
        Inl err \<Rightarrow> Inl (Error ''Failed to generate 3D model data.'')
      | Inr result \<Rightarrow> Inr result), [p])"
  using assms by (simp add: generate3DStructure_def)

lemma processResponse_parsed:
  assumes "t \<noteq> []" and "JSON_parse e t = Some parsed"
    and "parsed \<noteq> JUndefined" and "parsed \<noteq> JNull"
  shows "processResponse e (Some t) =
    (let sh = field parsed ''shapes'';
         mk = field parsed ''modelKey'';
         result = \<lparr>shapes = (if truthy sh then sh else JArr []), modelUrl = None\<rparr>
     in if truthy mk then
          bindE (toPropertyKey (numberToString e) mk)
            (\<lambda>k. if recordGet ASSET_LIBRARY k \<noteq> None
                 then Inr (result\<lparr>modelUrl := recordGet ASSET_LIBRARY k\<rparr>)
                 else Inr result)
        else Inr result)"
  using assms
  by (simp add: processResponse_def bindE_Inr Let_def truthyLib_recordGet_asset getProp_field)

text \<open>With a model key that is absent, null or a string, the response always goes through.\<close>

lemma processResponse_string_key:
  assumes "t \<noteq> []" and "JSON_parse e t = Some parsed"
    and "parsed \<noteq> JUndefined" and "parsed \<noteq> JNull"
    and "nullableString (field parsed ''modelKey'')"
  shows "processResponse e (Some t) =
    Inr \<lparr>shapes = (if truthy (field parsed ''shapes'') then field parsed ''shapes'' else JArr []),
         modelUrl = (case field parsed ''modelKey'' of
                       JStr k \<Rightarrow> recordGet ASSET_LIBRARY k
                     | other \<Rightarrow> None)\<rparr>"
proof (cases "field parsed ''modelKey''")
  case (JStr k)
  then show ?thesis
    using assms(1,2,3,4)
    by (cases "k = []"; cases "recordGet ASSET_LIBRARY k")
       (simp_all add: processResponse_parsed Let_def bindE_Inr recordGet_def ASSET_LIBRARY_def
          objectPrototypeNames_def)
qed (use assms in \<open>simp_all add: processResponse_parsed Let_def\<close>)

text \<open>The only errors the generator rejects with are its own two.\<close>

lemma generate_error_is_Error:
  assumes "fst (generate3DStructure e p) = Inl err"
  shows "err = Error ''Failed to generate 3D model data.''
       \<or> err = Error ''API Key is missing. Please set REACT_APP_API_KEY or check your environment.''"
  using assms by (auto simp: generate3DStructure_def split: if_splits sum.splits)

text \<open>
  The parsed value \<^verbatim>\<open>null\<close> has no properties to read: the response is rejected.
\<close>

lemma null_response_is_rejected:
  assumes "apiKey e \<noteq> []"
    and "generateContent e p = Resolves (Some t)"
    and "JSON_parse e t = Some JNull"
  shows "fst (generate3DStructure e p) = Inl (Error ''Failed to generate 3D model data.'')"
  using assms(3)
  by (simp add: generate_resolved [OF assms(1,2)] processResponse_def bindE_Inr bindE_Inl)

text \<open>
  The lookup of the model key in the asset library goes through the prototype chain as
  well: a model key naming an inherited member sets the model URL to that member.
\<close>

lemma inherited_model_key_sets_url:
  "fst (generate3DStructure (answering constructorKeyText constructorKey) ''a constructor'') =
     Inr \<lparr>shapes = JArr [], modelUrl = Some (ProtoMember ''constructor'')\<rparr>"
  by (simp add: generate3DStructure_def answering_def processResponse_def constructorKey_def
      bindE_Inr constructorKeyText_def recordGet_def ASSET_LIBRARY_def objectPrototypeNames_def)

lemma processResponse_fails:
  assumes "body = None \<or> body = Some [] \<or> (\<exists>t. body = Some t \<and> JSON_parse e t = None)"
  shows "\<exists>err. processResponse e body = Inl err"
  using assms by (auto simp: processResponse_def bindE_Inl)

section \<open>The renderer on a shape instruction\<close>

lemma triple_vector: "isVector v \<Longrightarrow> \<exists>xs. v = JArr xs \<and> triple v = Inr (components xs)"
  by (cases v) (simp_all add: triple_def components_def bindE_Inr)


lemma primitive_valid: "(primitive t \<noteq> None) = (t \<in> JStr ` set kinds)"
  by (auto simp: primitive_def kinds_def)

lemma ShapeMaterial_plain:
  assumes "isObject s" and "\<not> truthy (field s ''texture'')"
  shows "ShapeMaterial n2s s =
     Inr \<lparr>texmap = None, color = field s ''color'',
          metalness = (if field s ''metalness'' = JUndefined then JNum 0.3 else field s ''metalness''),
          roughness = (if field s ''roughness'' = JUndefined then JNum 0.5 else field s ''roughness'')\<rparr>"
  using assms by (simp add: ShapeMaterial_def getProp_object bindE_Inr Let_def)

lemma recordGet_member: "recordGet lib k = Some (ProtoMember n) \<Longrightarrow> n = k"
  by (auto simp: recordGet_def split: option.splits if_splits)

lemma optionalTextureKey_string:
  "optionalTextureKey v \<Longrightarrow> nullableString v \<and> v \<noteq> JStr ''__proto__''"
  by (cases v) (auto simp: objectPrototypeNames_def)

lemma ShapeMaterial_string:
  assumes "isObject s" and "field s ''texture'' = JStr k" and "k \<noteq> ''__proto__''"
  shows "ShapeMaterial n2s s =
     Inr \<lparr>texmap = map_option (\<lambda>u. \<lparr>url = u, wrapS = RepeatWrapping, wrapT = RepeatWrapping,
                                     repeatXY = (1, 1)\<rparr>) (recordGet TEXTURE_MAP k),
          color = field s ''color'',
          metalness = (if field s ''metalness'' = JUndefined then JNum 0.3 else field s ''metalness''),
          roughness = (if field s ''roughness'' = JUndefined then JNum 0.5 else field s ''roughness'')\<rparr>"
proof (cases "k = []")
  case True
  then have "recordGet TEXTURE_MAP k = None"
    by (simp add: recordGet_def TEXTURE_MAP_def objectPrototypeNames_def)
  with True assms show ?thesis
    by (simp add: ShapeMaterial_plain)
next
  case False
  show ?thesis
  proof (cases "recordGet TEXTURE_MAP k")
    case None
    with False assms show ?thesis
      by (simp add: ShapeMaterial_def getProp_object bindE_Inr Let_def)
  next
    case (Some u)
    then have "truthyLib (Some u)"
      using truthyLib_recordGet_texture [of k] by simp
    moreover from Some assms(3) have "u \<noteq> ProtoMember ''__proto__''"
      using recordGet_member by blast
    ultimately show ?thesis
      using Some False assms(1,2)
      by (simp add: ShapeMaterial_def getProp_object bindE_Inr Let_def TexturedMaterial_def
          useTexture_def)
  qed
qed

text \<open>
  The material of an entry in full: whatever the colour, metalness and roughness are,
  they reach the material as they stand, the two defaults standing in for
  \<^verbatim>\<open>undefined\<close> only.
\<close>

lemma ShapeMaterial_verbatim:
  assumes "isObject s" and "nullableString (field s ''texture'')"
    and "field s ''texture'' \<noteq> JStr ''__proto__''"
  shows "ShapeMaterial n2s s =
     Inr \<lparr>texmap = (case field s ''texture'' of
                      JStr k \<Rightarrow> map_option (\<lambda>u. \<lparr>url = u, wrapS = RepeatWrapping,
                                                   wrapT = RepeatWrapping, repeatXY = (1, 1)\<rparr>)
                                 (recordGet TEXTURE_MAP k)
                    | other \<Rightarrow> None),
          color = field s ''color'',
          metalness = (if field s ''metalness'' = JUndefined then JNum 0.3 else field s ''metalness''),
          roughness = (if field s ''roughness'' = JUndefined then JNum 0.5 else field s ''roughness'')\<rparr>"
proof (cases "field s ''texture''")
  case (JStr k)
  with assms(1,3) show ?thesis by (simp add: ShapeMaterial_string)
qed (use assms in \<open>simp_all add: ShapeMaterial_plain\<close>)

lemma ShapeMaterial_total:
  assumes "isObject s" and "nullableString (field s ''texture'')"
    and "field s ''texture'' \<noteq> JStr ''__proto__''"
  shows "\<exists>m. ShapeMaterial n2s s = Inr m"
  using ShapeMaterial_verbatim [OF assms] by simp


text \<open>One entry: a mesh of the kind's geometry when the kind is valid, nothing otherwise.\<close>

lemma ShapeRenderer_instruction:
  assumes "isShapeInstruction s"
  shows "(\<not> hasValidKind s \<longrightarrow> ShapeRenderer n2s s = Inr None)
       \<and> (hasValidKind s \<longrightarrow>
            (\<exists>n. ShapeRenderer n2s s = Inr (Some n)
                 \<and> primitive (field s ''type'') = Some (geom n, args n)))"
proof -
  from assms have o: "isObject s" and k: "optionalTextureKey (field s ''texture'')"
    and vp: "isVector (field s ''position'')" and vr: "isVector (field s ''rotation'')"
    and vs: "isVector (field s ''scale'')"
    by (simp_all add: isShapeInstruction_def)
  from optionalTextureKey_string [OF k] have t: "nullableString (field s ''texture'')"
    and np: "field s ''texture'' \<noteq> JStr ''__proto__''"
    by simp_all
  from triple_vector [OF vp] obtain ps where p: "triple (field s ''position'') = Inr (components ps)"
    by blast
  from triple_vector [OF vr] obtain rs where r: "triple (field s ''rotation'') = Inr (components rs)"
    by blast
  from triple_vector [OF vs] obtain ss where s: "triple (field s ''scale'') = Inr (components ss)"
    by blast
  from ShapeMaterial_total [OF o t np] obtain m where m: "ShapeMaterial n2s s = Inr m" ..
  have sr: "ShapeRenderer n2s s =
      (case primitive (field s ''type'') of
         None \<Rightarrow> Inr None
       | Some (g, as) \<Rightarrow> Inr (Some (Mesh g as (components ps) (components rs) (components ss) m)))"
    unfolding ShapeRenderer_def getProp_object [OF o] bindE_Inr p r s m
    by (simp split: option.splits)
  show ?thesis
  proof (cases "primitive (field s ''type'')")
    case None
    with sr primitive_valid [of "field s ''type''"] show ?thesis
      by (simp add: hasValidKind_def)
  next
    case (Some ga)
    with sr primitive_valid [of "field s ''type''"] show ?thesis
      by (cases ga) (simp add: hasValidKind_def)
  qed
qed

lemma renderShapes_instructions:
  assumes "\<forall>s\<in>set xs. isShapeInstruction s"
  shows "\<exists>ns. renderShapes n2s xs = Inr ns
       \<and> map (\<lambda>n. Some (geom n, args n)) ns =
           map (\<lambda>s. primitive (field s ''type'')) (filter hasValidKind xs)"
  using assms
proof (induction xs)
  case Nil
  then show ?case by simp
next
  case (Cons x xs)
  then obtain ns where ns: "renderShapes n2s xs = Inr ns"
    "map (\<lambda>n. Some (geom n, args n)) ns = map (\<lambda>s. primitive (field s ''type'')) (filter hasValidKind xs)"
    by auto
  from Cons.prems have x: "isShapeInstruction x" by simp
  show ?case
  proof (cases "hasValidKind x")
    case True
    with ShapeRenderer_instruction [OF x, of n2s] obtain n where
      "ShapeRenderer n2s x = Inr (Some n)" "primitive (field x ''type'') = Some (geom n, args n)"
      by auto
    with ns True show ?thesis by (simp add: bindE_Inr)
  next
    case False
    with ShapeRenderer_instruction [OF x, of n2s] have "ShapeRenderer n2s x = Inr None"
      by simp
    with ns False show ?thesis by (simp add: bindE_Inr)
  qed
qed




text \<open>
  Every model URL the generator sets is one the renderer takes for set: a lookup that
  found nothing truthy sets none.
\<close>

lemma processResponse_url:
  assumes "processResponse e body = Inr d"
  shows "modelUrl d = None \<or> truthyLib (modelUrl d)"
  using assms
  by (auto simp: processResponse_def bindE_def Let_def
      split: option.splits sum.splits if_splits)

lemma generate_url:
  assumes "fst (generate3DStructure e p) = Inr d" and "modelUrl d = Some u"
  shows "truthyLib (Some u)"
proof -
  from assms(1) obtain body where "processResponse e body = Inr d"
    by (auto simp: generate3DStructure_def split: if_splits response.splits sum.splits)
  from processResponse_url [OF this] assms(2) show ?thesis by simp
qed

section \<open>Claims about the generator\<close>

text \<open>
  C1, as stated, fails. The claim has it that a recognised model key gives a scene with
  the key's URL and an empty shape list. For a response that names the duck and also
  lists a cube, the generator sets the duck's URL and returns the cube in \<open>shapes\<close>:
  the shapes are never cleared.
\<close>

theorem model_key_keeps_shapes:
  "fst (generate3DStructure (answering duckAndCubeText duckAndCube) ''a rubber duck'') =
     Inr \<lparr>shapes = JArr [redCube], modelUrl = Some (LibString duckUrl)\<rparr>
   \<and> JArr [redCube] \<noteq> JArr []"
  by (simp add: generate3DStructure_def answering_def processResponse_def duckAndCube_def
      bindE_Inr duckAndCubeText_def recordGet_def ASSET_LIBRARY_def duckUrl_def)

text \<open>
  C1, amended. For every response that parses to a value other than null: if its model
  key is a string that is a key of the asset library, the generator returns the scene
  whose model URL is that key's URL and whose shapes are the parsed \<open>shapes\<close> value,
  kept as it is (the empty list only when that value is absent or falsy); if the model
  key is absent, null, or a string that is neither a library key nor a name inherited
  from the object prototype, the model URL is left unset and the shapes are again the
  parsed value, the empty list when absent or falsy.
\<close>

theorem generate_resolves_model_key:
  assumes "apiKey e \<noteq> []"
    and "generateContent e p = Resolves (Some t)"
    and "t \<noteq> []"
    and "JSON_parse e t = Some parsed"
    and "parsed \<noteq> JUndefined" and "parsed \<noteq> JNull"
  shows "(\<forall>k u. field parsed ''modelKey'' = JStr k \<and> map_of ASSET_LIBRARY k = Some u \<longrightarrow>
            fst (generate3DStructure e p) =
              Inr \<lparr>shapes = (if truthy (field parsed ''shapes'')
                             then field parsed ''shapes'' else JArr []),
                   modelUrl = Some (LibString u)\<rparr>)
       \<and> ((field parsed ''modelKey'' = JUndefined \<or> field parsed ''modelKey'' = JNull
            \<or> (\<exists>k. field parsed ''modelKey'' = JStr k \<and> map_of ASSET_LIBRARY k = None
                    \<and> k \<notin> set objectPrototypeNames)) \<longrightarrow>
            fst (generate3DStructure e p) =
              Inr \<lparr>shapes = (if truthy (field parsed ''shapes'')
                             then field parsed ''shapes'' else JArr []),
                   modelUrl = None\<rparr>)"
proof (intro conjI allI impI)
  fix k u
  assume h: "field parsed ''modelKey'' = JStr k \<and> map_of ASSET_LIBRARY k = Some u"
  then have "nullableString (field parsed ''modelKey'')" by simp
  from processResponse_string_key [OF assms(3,4,5,6) this] h
  show "fst (generate3DStructure e p) =
      Inr \<lparr>shapes = (if truthy (field parsed ''shapes'')
                     then field parsed ''shapes'' else JArr []),
           modelUrl = Some (LibString u)\<rparr>"
    by (simp add: generate_resolved [OF assms(1,2)] recordGet_own)
next
  assume h: "field parsed ''modelKey'' = JUndefined \<or> field parsed ''modelKey'' = JNull
      \<or> (\<exists>k. field parsed ''modelKey'' = JStr k \<and> map_of ASSET_LIBRARY k = None
              \<and> k \<notin> set objectPrototypeNames)"
  then have n: "nullableString (field parsed ''modelKey'')" by auto
  from processResponse_string_key [OF assms(3,4,5,6) n] h
  show "fst (generate3DStructure e p) =
      Inr \<lparr>shapes = (if truthy (field parsed ''shapes'')
                     then field parsed ''shapes'' else JArr []),
           modelUrl = None\<rparr>"
    by (auto simp: generate_resolved [OF assms(1,2)] recordGet_none)
qed

theorem generate_resolves_model_key_witness:
  "fst (generate3DStructure (answering duckAndCubeText duckAndCube) ''a rubber duck'') =
     Inr \<lparr>shapes = JArr [redCube], modelUrl = Some (LibString duckUrl)\<rparr>
   \<and> fst (generate3DStructure (answering cubeText cubeOnly) ''a small red cube'') =
     Inr \<lparr>shapes = JArr [redCube], modelUrl = None\<rparr>"
proof -
  have k: "apiKey (answering t v) \<noteq> []" for t v
    by (simp add: answering_simps)
  have d: "duckAndCubeText \<noteq> []" and c: "cubeText \<noteq> []"
    by (simp_all add: duckAndCubeText_def cubeText_def)
  have pd: "JSON_parse (answering duckAndCubeText duckAndCube) duckAndCubeText = Some duckAndCube"
    and pc: "JSON_parse (answering cubeText cubeOnly) cubeText = Some cubeOnly"
    by (simp_all add: answering_simps)
  have nd: "duckAndCube \<noteq> JUndefined" "duckAndCube \<noteq> JNull"
    and nc: "cubeOnly \<noteq> JUndefined" "cubeOnly \<noteq> JNull"
    by (simp_all add: duckAndCube_def cubeOnly_def)
  have u: "map_of ASSET_LIBRARY ''duck'' = Some duckUrl"
    by (simp add: ASSET_LIBRARY_def duckUrl_def)
  from generate_resolves_model_key [OF k answering_simps(2) d pd nd, of "''a rubber duck''"]
  have "fst (generate3DStructure (answering duckAndCubeText duckAndCube) ''a rubber duck'') =
     Inr \<lparr>shapes = JArr [redCube], modelUrl = Some (LibString duckUrl)\<rparr>"
    using u by (simp add: field_def duckAndCube_def)
  moreover
  from generate_resolves_model_key [OF k answering_simps(2) c pc nc, of "''a small red cube''"]
  have "fst (generate3DStructure (answering cubeText cubeOnly) ''a small red cube'') =
     Inr \<lparr>shapes = JArr [redCube], modelUrl = None\<rparr>"
    by (simp add: field_def cubeOnly_def)
  ultimately show ?thesis by simp
qed

text \<open>
  C4, as stated, fails. The claim has it that a response with a field of the wrong type
  or a value outside its enum is rejected. A response whose only shape has the type
  \<^verbatim>\<open>pyramid\<close>, a string for its position and a number for its colour is returned as
  the scene: the generator checks nothing.
\<close>

theorem malformed_shapes_are_returned:
  "fst (generate3DStructure (answering malformedText malformed) ''a pyramid'') =
     Inr \<lparr>shapes = JArr [JObj [(''type'', JStr ''pyramid''), (''position'', JStr ''up''),
                                 (''color'', JNum 5)]],
          modelUrl = None\<rparr>"
  by (simp add: generate3DStructure_def answering_def processResponse_def malformed_def
      malformedShape_def bindE_Inr malformedText_def)

text \<open>
  C4, amended. The generator does not validate the parsed response: for every response
  text that parses to a value other than null whose model key is absent, null or a
  string, generation succeeds, and a truthy \<open>shapes\<close> value of any type and content
  is returned exactly as parsed (the empty list stands in for a falsy one).
\<close>

theorem generate_accepts_any_shapes:
  assumes "apiKey e \<noteq> []"
    and "generateContent e p = Resolves (Some t)"
    and "t \<noteq> []"
    and "JSON_parse e t = Some parsed"
    and "parsed \<noteq> JUndefined" and "parsed \<noteq> JNull"
    and "nullableString (field parsed ''modelKey'')"
  shows "\<exists>u. fst (generate3DStructure e p) =
           Inr \<lparr>shapes = (if truthy (field parsed ''shapes'') then field parsed ''shapes''
                          else JArr []),
                modelUrl = u\<rparr>"
  using processResponse_string_key [OF assms(3,4,5,6,7)]
  by (simp add: generate_resolved [OF assms(1,2)])

theorem generate_accepts_any_shapes_witness:
  "\<exists>u. fst (generate3DStructure (answering malformedText malformed) ''a pyramid'') =
     Inr \<lparr>shapes = JArr [malformedShape], modelUrl = u\<rparr>"
proof -
  have k: "apiKey (answering malformedText malformed) \<noteq> []"
    by (simp add: answering_simps)
  have t: "malformedText \<noteq> []"
    by (simp add: malformedText_def)
  have n: "malformed \<noteq> JUndefined" "malformed \<noteq> JNull"
    by (simp_all add: malformed_def)
  have m: "nullableString (field malformed ''modelKey'')"
    by (simp add: field_def malformed_def)
  have sh: "field malformed ''shapes'' = JArr [malformedShape]"
    by (simp add: field_def malformed_def)
  from generate_accepts_any_shapes [OF k answering_simps(2) t answering_simps(3) n m, of "''a pyramid''"]
  show ?thesis by (simp add: sh)
qed

text \<open>
  C5, as stated, fails. The claim has it that the generator fails on every empty prompt.
  With a credential present the generator submits the empty prompt like any other, and
  returns the scene when the backend answers.
\<close>

theorem empty_prompt_is_submitted:
  "generate3DStructure (answering emptyText emptyScene) [] =
     (Inr \<lparr>shapes = JArr [], modelUrl = None\<rparr>, [[]])"
  by (simp add: generate3DStructure_def answering_def processResponse_def emptyScene_def
      bindE_Inr emptyText_def)

text \<open>
  C5, amended. The guard is the caller's: when the prompt is empty or only white space,
  \<^verbatim>\<open>handleGenerate\<close> returns at once, leaving the application state as it was and
  sending nothing to the backend. The generator itself does not look at the prompt: with
  a credential it sends exactly one request, carrying the prompt it was given.
\<close>

theorem empty_prompt_guard:
  "(trim (prompt s) = [] \<longrightarrow> handleGenerate e s = (s, []))
   \<and> (apiKey e \<noteq> [] \<longrightarrow> snd (generate3DStructure e p) = [p])"
  by (simp add: handleGenerate_def generate3DStructure_def)

theorem empty_prompt_guard_witness:
  "trim (prompt (showing ''   '')) = []
   \<and> handleGenerate failing (showing ''   '') = (showing ''   '', [])
   \<and> apiKey failing \<noteq> []
   \<and> snd (generate3DStructure failing []) = [[]]"
proof -
  have a: "trim (prompt (showing ''   '')) = []"
    by (simp add: trim_def showing_def isWhiteSpace_def)
  have b: "apiKey failing \<noteq> []"
    by (simp add: failing_def)
  from empty_prompt_guard [of "showing ''   ''" failing "[]"] a b
  show ?thesis by simp
qed

text \<open>
  C6. Whenever the call to the backend is made and it rejects, or resolves with no text
  or the empty text, or with text that does not parse, the generator rejects with the
  error whose message is the generic \<^verbatim>\<open>Failed to generate 3D model data.\<close>, so no scene
  is returned; the caller then leaves the scene on display as it was, shows that message
  and ends the loading state.
\<close>

theorem generation_failure:
  assumes "apiKey e \<noteq> []"
    and "generateContent e p = Rejects \<or> generateContent e p = Resolves None
         \<or> generateContent e p = Resolves (Some [])
         \<or> (\<exists>t. generateContent e p = Resolves (Some t) \<and> JSON_parse e t = None)"
    and "prompt s = p"
  shows "fst (generate3DStructure e p) = Inl (Error ''Failed to generate 3D model data.'')
       \<and> modelData (fst (handleGenerate e s)) = modelData s
       \<and> (trim p \<noteq> [] \<longrightarrow>
            error (fst (handleGenerate e s)) = Some ''Failed to generate 3D model data.''
            \<and> loading (fst (handleGenerate e s)) = False)"
proof -
  have g: "fst (generate3DStructure e p) = Inl (Error ''Failed to generate 3D model data.'')"
  proof (cases "generateContent e p")
    case Rejects
    with assms(1) show ?thesis by (simp add: generate3DStructure_def)
  next
    case (Resolves body)
    with assms(2) have "body = None \<or> body = Some [] \<or> (\<exists>t. body = Some t \<and> JSON_parse e t = None)"
      by auto
    from processResponse_fails [OF this] obtain err where "processResponse e body = Inl err" ..
    then show ?thesis by (simp add: generate_resolved [OF assms(1) Resolves])
  qed
  then obtain rs where "generate3DStructure e p = (Inl (Error ''Failed to generate 3D model data.''), rs)"
    by (cases "generate3DStructure e p") simp
  with assms(3) have "modelData (fst (handleGenerate e s)) = modelData s
       \<and> (trim p \<noteq> [] \<longrightarrow>
            error (fst (handleGenerate e s)) = Some ''Failed to generate 3D model data.''
            \<and> loading (fst (handleGenerate e s)) = False)"
    by (simp add: handleGenerate_def)
  with g show ?thesis by simp
qed

theorem generation_failure_witness:
  "fst (generate3DStructure failing ''a castle'') = Inl (Error ''Failed to generate 3D model data.'')
   \<and> modelData (fst (handleGenerate failing (showing ''a castle''))) =
       Some \<lparr>shapes = JArr [redCube], modelUrl = None\<rparr>
   \<and> error (fst (handleGenerate failing (showing ''a castle''))) =
       Some ''Failed to generate 3D model data.''"
proof -
  have k: "apiKey failing \<noteq> []" by (simp add: failing_def)
  have r: "generateContent failing ''a castle'' = Rejects \<or> generateContent failing ''a castle'' = Resolves None
         \<or> generateContent failing ''a castle'' = Resolves (Some [])
         \<or> (\<exists>t. generateContent failing ''a castle'' = Resolves (Some t) \<and> JSON_parse failing t = None)"
    by (simp add: failing_def)
  have p: "prompt (showing ''a castle'') = ''a castle''" by (simp add: showing_def)
  have t: "trim ''a castle'' \<noteq> []" by (simp add: trim_def isWhiteSpace_def)
  have m: "modelData (showing ''a castle'') = Some \<lparr>shapes = JArr [redCube], modelUrl = None\<rparr>"
    by (simp add: showing_def)
  from generation_failure [OF k r p] t m show ?thesis by simp
qed



section \<open>Claims about the renderer\<close>

text \<open>
  C2. For every scene whose model URL is set, the renderer produces exactly one node, the
  imported model of that URL fitted to the size 2.5, and reads none of the shapes,
  whatever their number and whatever the value of \<open>shapes\<close> is. A model URL counts as
  set when it is present and non-empty, which is how the renderer tests it; every model
  URL the generator sets is, so the same holds of every scene the generator returns
  with a model URL.
\<close>

theorem reference_takes_precedence:
  "(modelUrl d = Some u \<and> truthyLib (Some u) \<longrightarrow>
      GeneratedObject n2s (d\<lparr>shapes := sh\<rparr>) = Inr [ResizeGltf 2.5 u True True])
   \<and> (fst (generate3DStructure e p) = Inr g \<and> modelUrl g = Some v \<longrightarrow>
      GeneratedObject n2s g = Inr [ResizeGltf 2.5 v True True]
      \<and> GeneratedObject n2s (g\<lparr>shapes := sh\<rparr>) = Inr [ResizeGltf 2.5 v True True])"
proof (intro conjI impI)
  assume "modelUrl d = Some u \<and> truthyLib (Some u)"
  then show "GeneratedObject n2s (d\<lparr>shapes := sh\<rparr>) = Inr [ResizeGltf 2.5 u True True]"
    by (simp add: GeneratedObject_def)
next
  assume h: "fst (generate3DStructure e p) = Inr g \<and> modelUrl g = Some v"
  then have "truthyLib (Some v)"
    using generate_url by blast
  with h show "GeneratedObject n2s g = Inr [ResizeGltf 2.5 v True True]"
    and "GeneratedObject n2s (g\<lparr>shapes := sh\<rparr>) = Inr [ResizeGltf 2.5 v True True]"
    by (simp_all add: GeneratedObject_def)
qed

theorem reference_takes_precedence_witness:
  "GeneratedObject sampleNumberToString
     \<lparr>shapes = JArr [redCube, pyramid, JNull], modelUrl = Some (LibString duckUrl)\<rparr> =
     Inr [ResizeGltf 2.5 (LibString duckUrl) True True]
   \<and> fst (generate3DStructure (answering duckAndCubeText duckAndCube) ''a rubber duck'') =
       Inr \<lparr>shapes = JArr [redCube], modelUrl = Some (LibString duckUrl)\<rparr>
   \<and> GeneratedObject sampleNumberToString
       \<lparr>shapes = JArr [redCube], modelUrl = Some (LibString duckUrl)\<rparr> =
     Inr [ResizeGltf 2.5 (LibString duckUrl) True True]"
proof -
  have b: "truthyLib (Some (LibString duckUrl))"
    by (simp add: duckUrl_def)
  have g: "fst (generate3DStructure (answering duckAndCubeText duckAndCube) ''a rubber duck'') =
      Inr \<lparr>shapes = JArr [redCube], modelUrl = Some (LibString duckUrl)\<rparr>"
    by (simp add: generate3DStructure_def answering_def processResponse_def duckAndCube_def
        bindE_Inr duckAndCubeText_def recordGet_def ASSET_LIBRARY_def duckUrl_def)
  from reference_takes_precedence
    [of "\<lparr>shapes = JArr [], modelUrl = Some (LibString duckUrl)\<rparr>" "LibString duckUrl"
        sampleNumberToString "JArr [redCube, pyramid, JNull]"
        "answering duckAndCubeText duckAndCube" "''a rubber duck''"
        "\<lparr>shapes = JArr [redCube], modelUrl = Some (LibString duckUrl)\<rparr>" "LibString duckUrl"]
  show ?thesis using b g by simp
qed

text \<open>
  Wherever the texture lookup does not go astray, the dispatch on the kind is as
  specified: for every scene with no model reference whose \<open>shapes\<close> is a list of shape
  instructions, the renderer raises no error and produces one node per entry whose kind
  is one of box, sphere, cylinder, cone, torus and capsule, in order and of that kind's
  geometry: as many nodes as entries when every kind is valid, and no node for an entry
  of any other kind.
\<close>

lemma valid_kinds_give_nodes:
  assumes "\<not> truthyLib (modelUrl d)"
    and "shapes d = JArr xs"
    and "\<forall>s\<in>set xs. isShapeInstruction s"
  shows "\<exists>ns. GeneratedObject n2s d = Inr ns
       \<and> length ns = length (filter hasValidKind xs)
       \<and> map (\<lambda>n. Some (geom n, args n)) ns =
           map (\<lambda>s. primitive (field s ''type'')) (filter hasValidKind xs)
       \<and> ((\<forall>s\<in>set xs. hasValidKind s) \<longrightarrow> length ns = length xs)
       \<and> (\<forall>s\<in>set xs. \<not> hasValidKind s \<longrightarrow> ShapeRenderer n2s s = Inr None)"
proof -
  from renderShapes_instructions [OF assms(3), of n2s] obtain ns where
    r: "renderShapes n2s xs = Inr ns" and
    m: "map (\<lambda>n. Some (geom n, args n)) ns =
          map (\<lambda>s. primitive (field s ''type'')) (filter hasValidKind xs)"
    by auto
  have "length (map (\<lambda>n. Some (geom n, args n)) ns) =
      length (map (\<lambda>s. primitive (field s ''type'')) (filter hasValidKind xs))"
    by (simp only: m)
  then have len: "length ns = length (filter hasValidKind xs)"
    by simp
  have g: "GeneratedObject n2s d = Inr ns"
    using assms(1,2) r by (simp add: GeneratedObject_def)
  have all: "(\<forall>s\<in>set xs. hasValidKind s) \<longrightarrow> length ns = length xs"
    using len by simp
  have skip: "\<forall>s\<in>set xs. \<not> hasValidKind s \<longrightarrow> ShapeRenderer n2s s = Inr None"
  proof (intro ballI impI)
    fix s assume "s \<in> set xs" and nv: "\<not> hasValidKind s"
    with assms(3) have "isShapeInstruction s" by simp
    from ShapeRenderer_instruction [OF this, of n2s] nv
    show "ShapeRenderer n2s s = Inr None" by simp
  qed
  from g len m all skip show ?thesis
    by (intro exI [of _ ns] conjI)
qed

text \<open>
  C3 does not hold of the code. The claim has it that a scene with no model reference
  renders one node per entry of a valid kind, N nodes when all N kinds are valid. The
  scene of the red cube and a box whose texture is \<^verbatim>\<open>__proto__\<close> has two entries, both
  of a valid kind; the lookup in the texture table finds the prototype object, the
  textured material throws, and the scene renders as no node at all.
\<close>

theorem proto_texture_loses_scene:
  "hasValidKind redCube \<and> hasValidKind protoTextured
   \<and> GeneratedObject n2s \<lparr>shapes = JArr [redCube, protoTextured], modelUrl = None\<rparr> =
       Inl TypeError"
  by (simp add: hasValidKind_def field_def kinds_def GeneratedObject_def ShapeRenderer_def
      ShapeMaterial_def TexturedMaterial_def useTexture_def redCube_def protoTextured_def
      triple_def primitive_def bindE_Inr bindE_Inl recordGet_def TEXTURE_MAP_def
      objectPrototypeNames_def)

text \<open>
  C7 does not hold of the code. The claim has it that the material is textured exactly
  when the texture is one of wood, brick, stone, metal, tech and checkers, and is the
  untextured one for any other value. The texture \<^verbatim>\<open>constructor\<close> is none of the six,
  yet the lookup in the texture table finds the member inherited from the object
  prototype, and the material is the textured one, with that member for its image.
\<close>

theorem inherited_texture_name_is_textured:
  "''constructor'' \<notin> set textureKeys
   \<and> ShapeMaterial n2s constructorTextured =
       Inr \<lparr>texmap = Some \<lparr>url = ProtoMember ''constructor'', wrapS = RepeatWrapping,
                            wrapT = RepeatWrapping, repeatXY = (1, 1)\<rparr>,
            color = JStr ''#ff0000'', metalness = JNum 0.3, roughness = JNum 0.5\<rparr>
   \<and> TexturedMaterial (ProtoMember ''constructor'') (JStr ''#ff0000'') (JNum 0.3) (JNum 0.5) =
       Inr \<lparr>texmap = Some \<lparr>url = ProtoMember ''constructor'', wrapS = RepeatWrapping,
                            wrapT = RepeatWrapping, repeatXY = (1, 1)\<rparr>,
            color = JStr ''#ff0000'', metalness = JNum 0.3, roughness = JNum 0.5\<rparr>"
  by (simp add: textureKeys_def ShapeMaterial_def constructorTextured_def bindE_Inr
      recordGet_def TEXTURE_MAP_def objectPrototypeNames_def TexturedMaterial_def
      useTexture_def)




end
